theory Spec2Isabelle
  imports Main
begin

section \<open>Python values, exceptions and string operations\<close>

text \<open>
  The program is Python 2: a \<open>str\<close> is a byte string, modelled as \<open>string\<close>.
  An exception is a value of \<open>exn\<close>; a function that may raise returns \<open>exn + 'a\<close>.
\<close>

datatype exn = IndexError | ValueError | AttributeError | TypeError | IOError | Exception string

datatype pyval = PyNone | PyStr string

definition py_whitespace :: "char list" where
  \<comment> \<open>the bytes that \<open>str.strip()\<close> without argument removes\<close>
  "py_whitespace = [CHR 0x20, CHR 0x09, CHR 0x0A, CHR 0x0D, CHR 0x0B, CHR 0x0C]"

definition rstrip_chars :: "char list \<Rightarrow> string \<Rightarrow> string" where
  \<comment> \<open>\<open>s.rstrip(chars)\<close>: drops trailing characters that belong to the set \<open>chars\<close>\<close>
  "rstrip_chars cs s = rev (dropWhile (\<lambda>c. c \<in> set cs) (rev s))"

definition lstrip_chars :: "char list \<Rightarrow> string \<Rightarrow> string" where
  "lstrip_chars cs s = dropWhile (\<lambda>c. c \<in> set cs) s"

definition rstrip :: "string \<Rightarrow> string" where
  "rstrip s = rstrip_chars py_whitespace s"

definition strip :: "string \<Rightarrow> string" where
  "strip s = lstrip_chars py_whitespace (rstrip_chars py_whitespace s)"

fun split_on :: "char \<Rightarrow> string \<Rightarrow> string list" where
  \<comment> \<open>\<open>s.split(sep)\<close> for a one-character separator: never an empty list\<close>
  "split_on sep [] = [[]]"
| "split_on sep (c # cs) =
     (if c = sep then [] # split_on sep cs
      else (case split_on sep cs of
              [] \<Rightarrow> [[c]]
            | p # ps \<Rightarrow> (c # p) # ps))"

definition is_digit :: "char \<Rightarrow> bool" where
  \<comment> \<open>\<open>\d\<close> of a pattern compiled without the UNICODE flag\<close>
  "is_digit c = (c \<in> set ''0123456789'')"

definition digit_val :: "char \<Rightarrow> nat" where
  "digit_val c = of_char c - 48"

definition digits_val :: "string \<Rightarrow> nat" where
  "digits_val ds = foldl (\<lambda>a c. 10 * a + digit_val c) 0 ds"

definition py_int :: "string \<Rightarrow> exn + int" where
  \<comment> \<open>\<open>int(s)\<close>: surrounding whitespace, one optional sign, then decimal digits\<close>
  "py_int s =
     (case strip s of
        [] \<Rightarrow> Inl ValueError
      | c # cs \<Rightarrow>
          (let ds = (if c = CHR ''+'' \<or> c = CHR ''-'' then cs else c # cs)
           in if ds = [] then Inl ValueError
              else if list_all is_digit ds
                then Inr (if c = CHR ''-'' then - int (digits_val ds) else int (digits_val ds))
              else Inl ValueError))"

definition digit_char :: "nat \<Rightarrow> char" where
  "digit_char d = ''0123456789'' ! d"

fun nat_digits :: "nat \<Rightarrow> string" where
  "nat_digits n = (if n < 10 then [digit_char n] else nat_digits (n div 10) @ [digit_char (n mod 10)])"

declare nat_digits.simps [simp del]

definition py_str :: "int \<Rightarrow> string" where
  \<comment> \<open>\<open>str(i)\<close> of an integer\<close>
  "py_str i = (if i < 0 then CHR ''-'' # nat_digits (nat (- i)) else nat_digits (nat i))"


section \<open>The cursor store: class LastFileId\<close>

text \<open>
  The part of the outside world that the downloader writes: the file
  \<open>LastKnownDownloadedFileId.txt\<close> (\<open>None\<close> while it does not exist), the files of
  the \<open>fail\<close> folder, and three logs, each latest first: the calls of
  \<open>time.sleep\<close>, the file names requested from the remote store, and the strings
  that \<open>update_last_log_id\<close> wrote to the cursor file.
\<close>

record world =
  cursor_file :: "string option"
  fail_dir :: "string \<rightharpoonup> string"
  slept :: "nat list"
  requested :: "string list"
  cursor_writes :: "string list"

definition get_last_log_id :: "world \<Rightarrow> string" where
  "get_last_log_id w = (case cursor_file w of Some tmpfil \<Rightarrow> rstrip tmpfil | None \<Rightarrow> [])"

definition update_last_log_id :: "string \<Rightarrow> world \<Rightarrow> world" where
  "update_last_log_id last_id w =
     w\<lparr>cursor_file := Some last_id, cursor_writes := last_id # cursor_writes w\<rparr>"

definition get_next_file_name :: "world \<Rightarrow> exn + string" where
  "get_next_file_name w =
     (case split_on (CHR ''_'') (get_last_log_id w) of
        a0 # a1 # _ \<Rightarrow>
          (case py_int (rstrip_chars ''.log'' a1) of
             Inl e \<Rightarrow> Inl e
           | Inr n \<Rightarrow> Inr (a0 @ ''_'' @ py_str (n + 1) @ ''.log''))
      | _ \<Rightarrow> Inl IndexError)"

definition move_to_next_file :: "world \<Rightarrow> exn + world" where
  "move_to_next_file w =
     (case get_next_file_name w of
        Inl e \<Rightarrow> Inl e
      | Inr nm \<Rightarrow> Inr (update_last_log_id nm w))"

definition world0 :: world where
  \<comment> \<open>a fresh installation: no cursor file, an empty \<open>fail\<close> folder\<close>
  "world0 = \<lparr>cursor_file = None, fail_dir = Map.empty, slept = [], requested = [],
              cursor_writes = []\<rparr>"


section \<open>Regular expressions of the index service: class LogsFileIndex\<close>

text \<open>
  The two validation patterns use only character classes, literals, concatenation and
  \<open>+\<close>. \<open>re.match\<close> is true iff the pattern matches some prefix of the subject (it
  anchors at the start only), which \<open>re_match\<close> decides by Brzozowski derivatives.
\<close>

datatype rx = Nul | Eps | Digit | Lit char | Cat rx rx | Alt rx rx | Star rx

fun nullable :: "rx \<Rightarrow> bool" where
  "nullable Nul = False"
| "nullable Eps = True"
| "nullable Digit = False"
| "nullable (Lit c) = False"
| "nullable (Cat r s) = (nullable r \<and> nullable s)"
| "nullable (Alt r s) = (nullable r \<or> nullable s)"
| "nullable (Star r) = True"

fun deriv :: "char \<Rightarrow> rx \<Rightarrow> rx" where
  "deriv c Nul = Nul"
| "deriv c Eps = Nul"
| "deriv c Digit = (if is_digit c then Eps else Nul)"
| "deriv c (Lit d) = (if c = d then Eps else Nul)"
| "deriv c (Cat r s) =
     (if nullable r then Alt (Cat (deriv c r) s) (deriv c s) else Cat (deriv c r) s)"
| "deriv c (Alt r s) = Alt (deriv c r) (deriv c s)"
| "deriv c (Star r) = Cat (deriv c r) (Star r)"

fun re_match :: "rx \<Rightarrow> string \<Rightarrow> bool" where
  "re_match r [] = nullable r"
| "re_match r (c # cs) = (if nullable r then True else re_match (deriv c r) cs)"

definition rx_plus :: "rx \<Rightarrow> rx" where
  "rx_plus r = Cat r (Star r)"

definition rx_lit :: "string \<Rightarrow> rx" where
  "rx_lit s = foldr (\<lambda>c r. Cat (Lit c) r) s Eps"


definition logs_index_rx :: rx where
  \<comment> \<open>\<open>(\d+_\d+\.log\n)+\<close>\<close>
  "logs_index_rx =
     rx_plus (Cat (rx_plus Digit) (Cat (Lit (CHR ''_''))
       (Cat (rx_plus Digit) (rx_lit (''.log'' @ [CHR 0x0A])))))"

definition validate_logs_index_file_format :: "string \<Rightarrow> bool" where
  "validate_logs_index_file_format content = re_match logs_index_rx content"


text \<open>
  \<open>accepts r s\<close>: the pattern matches the whole of \<open>s\<close>. \<open>index_line p n\<close> is the
  line of the index for prefix \<open>p\<close> and sequence number \<open>n\<close>, with its newline.
\<close>

fun accepts :: "rx \<Rightarrow> string \<Rightarrow> bool" where
  "accepts r [] = nullable r"
| "accepts r (c # cs) = accepts (deriv c r) cs"

definition index_line :: "string \<Rightarrow> string \<Rightarrow> string" where
  "index_line p n = p @ ''_'' @ n @ ''.log'' @ [CHR 0x0A]"

text \<open>
  \<open>re.search('((?<=_)\d+)(?=\.)', s)\<close>: the leftmost position that follows a \<open>_\<close>
  and starts a run of digits which a \<open>.\<close> ends. The greedy \<open>\d+\<close> can only succeed
  with the whole run, since after a shorter one the next character is a digit.
  \<open>seq_scan prev s\<close> scans \<open>s\<close>, \<open>prev\<close> being the character before it.
\<close>

fun seq_scan :: "char \<Rightarrow> string \<Rightarrow> string option" where
  "seq_scan prev [] = None"
| "seq_scan prev (c # cs) =
     (if prev = CHR ''_'' \<and> is_digit c \<and>
         (case dropWhile is_digit cs of [] \<Rightarrow> False | d # _ \<Rightarrow> d = CHR ''.'')
      then Some (c # takeWhile is_digit cs)
      else seq_scan c cs)"

definition file_seq :: "string \<Rightarrow> exn + int" where
  \<comment> \<open>\<open>int(re.search(...).group(0))\<close>; no match gives \<open>None.group\<close>, an AttributeError\<close>
  "file_seq s =
     (case s of
        [] \<Rightarrow> Inl AttributeError
      | c # cs \<Rightarrow> (case seq_scan c cs of None \<Rightarrow> Inl AttributeError | Some g \<Rightarrow> py_int g))"


section \<open>The remote store: class FileDownloader and download_log_file\<close>

text \<open>
  What \<open>requests.get\<close> does: it raises (no connection, timeout, TLS failure) or
  gives a response with a status code and a body.
\<close>

datatype http = NoResponse | Response nat string

record config =
  BASE_URL :: string
  SYSLOG_ENABLE :: string
  SAVE_LOCALLY :: string
  SFTP_TRANSFER :: string

definition raise_for_status :: "nat \<Rightarrow> bool" where
  \<comment> \<open>true when \<open>response.raise_for_status()\<close> raises \<open>HTTPError\<close>\<close>
  "raise_for_status code = (400 \<le> code \<and> code < 600)"

definition request_file_content :: "http \<Rightarrow> exn + pyval" where
  "request_file_content r =
     (case r of
        NoResponse \<Rightarrow> Inl (Exception ''Connection error'')
      | Response code body \<Rightarrow>
          if raise_for_status code then
            (if code = 404 then Inr (PyStr ''404_NOT_FOUND'')
             else if code = 401 then Inl (Exception ''Authorization error'')
             else if code = 429 then Inl (Exception ''Rate limit error'')
             else Inl (Exception ''Connection error''))
          else if code = 200 then Inr (PyStr body)
          else Inr PyNone)"

text \<open>
  \<open>download_log_file\<close> returns a pair on its three normal paths and the bare string
  \<open>"ERROR"\<close> from its exception handler. \<open>result[0]\<close> of a pair is its first
  component; of a string it is the one-character string of its first character.
\<close>

datatype dl_result = Tuple string pyval | Bare string

definition result0 :: "dl_result \<Rightarrow> string" where
  "result0 r = (case r of Tuple tag content \<Rightarrow> tag | Bare s \<Rightarrow> take 1 s)"

definition result1 :: "dl_result \<Rightarrow> pyval" where
  "result1 r = (case r of Tuple tag content \<Rightarrow> content | Bare s \<Rightarrow> PyStr (take 1 (drop 1 s)))"

definition download_log_file :: "config \<Rightarrow> (string \<Rightarrow> http) \<Rightarrow> string \<Rightarrow> dl_result" where
  "download_log_file cfg net filename =
     (let fn = rstrip_chars [CHR 0x0D, CHR 0x0A] filename
      in case request_file_content (net (BASE_URL cfg @ fn)) of
           Inl e \<Rightarrow> Bare ''ERROR''
         | Inr file_content \<Rightarrow>
             if file_content \<noteq> PyStr [] \<and> file_content \<noteq> PyStr ''404_NOT_FOUND''
               then Tuple ''OK'' file_content
             else if file_content = PyStr ''404_NOT_FOUND''
               then Tuple ''404_NOT_FOUND'' file_content
             else Tuple ''NOT_FOUND'' file_content)"


section \<open>The delivery dispatcher: handle_log_decrypted_content\<close>

text \<open>
  The sinks are outside the program; \<open>sink_env\<close> says which of them work.
  A step that ran is recorded with whether it succeeded.
\<close>

datatype sink = Syslog | LocalSave | SftpUpload | Gzip

record sink_env =
  syslog_ok :: bool
  save_ok :: bool
  sftp_ok :: bool
  gzip_ok :: bool

definition sftp_upload_file :: "sink_env \<Rightarrow> pyval" where
  \<comment> \<open>the body is one \<open>try\<close>: a failure is logged and \<open>"ERROR"\<close> returned\<close>
  "sftp_upload_file se = (if sftp_ok se then PyNone else PyStr ''ERROR'')"

definition gzip_file :: "sink_env \<Rightarrow> pyval" where
  \<comment> \<open>the body is one \<open>try\<close>: a failure is logged and \<open>"ERROR"\<close> returned\<close>
  "gzip_file se = (if gzip_ok se then PyNone else PyStr ''ERROR'')"

definition handle_log_decrypted_content ::
  "config \<Rightarrow> sink_env \<Rightarrow> (sink \<times> bool) list \<times> exn option" where
  \<comment> \<open>the steps that ran, and the exception that left the function, if any.
     In the SFTP branch the argument \<open>self.upfile\<close> of the call of \<open>gzip_file\<close> is an
     attribute that is never assigned: evaluating it raises AttributeError.\<close>
  "handle_log_decrypted_content cfg se =
     (let t1 = (if SYSLOG_ENABLE cfg = ''YES'' then [(Syslog, syslog_ok se)] else [])
      in if SYSLOG_ENABLE cfg = ''YES'' \<and> syslog_ok se = False then (t1, Some IOError)
         else
           (let t2 = t1 @ (if SAVE_LOCALLY cfg = ''YES'' then [(LocalSave, save_ok se)] else [])
            in if SAVE_LOCALLY cfg = ''YES'' \<and> save_ok se = False then (t2, Some IOError)
               else if SFTP_TRANSFER cfg = ''YES''
                 then (t2 @ [(SftpUpload, sftp_upload_file se = PyNone)], Some AttributeError)
               else if SFTP_TRANSFER cfg = ''NO''
                 then (t2 @ [(Gzip, gzip_file se = PyNone)], None)
               else (t2, None)))"


section \<open>The fetch and retry controller: handle_file and get_log_files\<close>

text \<open>
  The answers of the outside world during one call of \<open>handle_file\<close>, by the number
  \<open>k\<close> of the pass of its \<open>while\<close> loop: the \<open>running\<close> flag where the pass reads it,
  the remote store's answer to the download, the content of \<open>logs.index\<close> (or the
  exception of \<open>requests.get\<close>), the sinks. \<open>decrypt\<close> stands for the RSA, AES, zlib
  and MD5 steps of \<open>decrypt_file\<close> on a string, which are not modelled: the plaintext
  or the exception raised.
\<close>

record env =
  running_at :: "nat \<Rightarrow> bool"
  running_sleep :: "nat \<Rightarrow> bool"
  running_end :: bool
  remote :: "nat \<Rightarrow> string \<Rightarrow> http"
  remote_index :: "nat \<Rightarrow> exn + string"
  decrypt :: "string \<Rightarrow> string \<Rightarrow> exn + string"
  sinks :: "nat \<Rightarrow> sink_env"

definition decrypt_file :: "env \<Rightarrow> pyval \<Rightarrow> string \<Rightarrow> exn + string" where
  \<comment> \<open>the first statement is \<open>file_content.split(...)\<close>: AttributeError on \<open>None\<close>\<close>
  "decrypt_file ev file_content filename =
     (case file_content of PyNone \<Rightarrow> Inl AttributeError | PyStr raw \<Rightarrow> decrypt ev raw filename)"

definition process_file :: "config \<Rightarrow> env \<Rightarrow> nat \<Rightarrow> string \<Rightarrow> pyval \<Rightarrow> exn option" where
  \<comment> \<open>the body of the \<open>try\<close> of the OK branch: the exception it raises, if any\<close>
  "process_file cfg ev k logfile content =
     (case decrypt_file ev content logfile of
        Inl e \<Rightarrow> Some e
      | Inr decrypted_file \<Rightarrow> snd (handle_log_decrypted_content cfg (sinks ev k)))"

definition save_to_fail :: "string \<Rightarrow> pyval \<Rightarrow> world \<Rightarrow> exn + world" where
  \<comment> \<open>\<open>open(..., "w")\<close> creates the file empty; \<open>file.write(None)\<close> is a TypeError\<close>
  "save_to_fail logfile content w =
     (case content of
        PyStr raw \<Rightarrow> Inr (w\<lparr>fail_dir := (fail_dir w)(logfile \<mapsto> raw)\<rparr>)
      | PyNone \<Rightarrow> Inl TypeError)"

definition neg2 :: "'a list \<Rightarrow> exn + 'a" where
  \<comment> \<open>\<open>xs[-2]\<close>\<close>
  "neg2 xs = (if 2 \<le> length xs then Inr (xs ! (length xs - 2)) else Inl IndexError)"

definition slice_1_m3 :: "'a list \<Rightarrow> 'a list" where
  \<comment> \<open>\<open>xs[1:-3]\<close>\<close>
  "slice_1_m3 xs = drop 1 (take (length xs - 3) xs)"

definition resync_404 :: "env \<Rightarrow> nat \<Rightarrow> string \<Rightarrow> nat \<Rightarrow> world \<Rightarrow> exn + (string \<times> nat \<times> world)" where
  \<comment> \<open>the 404 branch after \<open>counter += 1\<close>: the new \<open>logfile\<close>, \<open>failcount\<close> and world\<close>
  "resync_404 ev k logfile failcount w =
     (case remote_index ev k of
        Inl e \<Rightarrow> Inl e
      | Inr data \<Rightarrow>
          (case split_on (CHR 0x0A) data of
             [] \<Rightarrow> Inl IndexError
           | first_logfile # _ \<Rightarrow>
               (case neg2 (split_on (CHR 0x0A) data) of
                  Inl e \<Rightarrow> Inl e
                | Inr last_logfile \<Rightarrow>
                    (case file_seq logfile of
                       Inl e \<Rightarrow> Inl e
                     | Inr a \<Rightarrow>
                         (case file_seq first_logfile of
                            Inl e \<Rightarrow> Inl e
                          | Inr b \<Rightarrow>
                              if a < b
                                then Inr (first_logfile, failcount, update_last_log_id first_logfile w)
                              else
                                (case file_seq last_logfile of
                                   Inl e \<Rightarrow> Inl e
                                 | Inr c \<Rightarrow>
                                     if a > c then
                                       (if failcount + 1 > 3
                                          then Inr (first_logfile, failcount + 1,
                                                    update_last_log_id first_logfile w)
                                        else Inr (logfile, failcount + 1, w\<lparr>slept := 10 # slept w\<rparr>))
                                     else if logfile \<in> set (slice_1_m3 (split_on (CHR 0x0A) data))
                                       then Inr (logfile, failcount, update_last_log_id logfile w)
                                     else Inr (logfile, failcount, w)))))))"

definition retry_sleep :: "env \<Rightarrow> nat \<Rightarrow> nat \<Rightarrow> nat \<Rightarrow> world \<Rightarrow> world" where
  "retry_sleep ev k wait_time counter w =
     (if wait_time > 0 \<and> counter \<le> 2
        then (if running_sleep ev k then w\<lparr>slept := wait_time # slept w\<rparr> else w)
      else w)"

datatype outcome = Returned bool | Raised exn

datatype pass_result = Done outcome world | Again string nat nat world

definition handle_file_pass ::
  "config \<Rightarrow> env \<Rightarrow> nat \<Rightarrow> nat \<Rightarrow> string \<Rightarrow> nat \<Rightarrow> nat \<Rightarrow> world \<Rightarrow> pass_result" where
  \<comment> \<open>the body of the \<open>while\<close> loop: the call is over (\<open>return\<close>, \<open>break\<close>, an exception)
     or the loop goes on with \<open>logfile\<close>, \<open>counter\<close>, \<open>failcount\<close>\<close>
  "handle_file_pass cfg ev wait_time k logfile counter failcount w =
     (if running_at ev k then
        (let result = download_log_file cfg (remote ev k) logfile;
             w1 = w\<lparr>requested := rstrip_chars [CHR 0x0D, CHR 0x0A] logfile # requested w\<rparr>
         in if result0 result = ''OK'' then
              (case process_file cfg ev k logfile (result1 result) of
                 None \<Rightarrow> Done (Returned True) w1
               | Some e \<Rightarrow>
                   (case save_to_fail logfile (result1 result) w1 of
                      Inl e' \<Rightarrow> Done (Raised e') (w1\<lparr>fail_dir := (fail_dir w1)(logfile \<mapsto> [])\<rparr>)
                    | Inr w2 \<Rightarrow> Done (Returned False) w2))
            else if result0 result = ''404_NOT_FOUND'' then
              (case resync_404 ev k logfile failcount w1 of
                 Inl e \<Rightarrow> Done (Raised e) w1
               | Inr (logfile', failcount', w2) \<Rightarrow>
                   Again logfile' (counter + 1) failcount'
                     (retry_sleep ev k wait_time (counter + 1) w2))
            else if result0 result = ''NOT_FOUND'' \<or> result0 result = ''ERROR'' then
              Again logfile (counter + 1) failcount (retry_sleep ev k wait_time (counter + 1) w1)
            else Again logfile counter failcount (retry_sleep ev k wait_time counter w1))
      else Done (Returned False) w)"

fun handle_file_loop ::
  "nat \<Rightarrow> config \<Rightarrow> env \<Rightarrow> nat \<Rightarrow> nat \<Rightarrow> string \<Rightarrow> nat \<Rightarrow> nat \<Rightarrow> world \<Rightarrow> (outcome \<times> world) option" where
  \<comment> \<open>\<open>while counter <= 3\<close>, with fuel: \<open>None\<close> when the fuel does not suffice\<close>
  "handle_file_loop 0 cfg ev wait_time k logfile counter failcount w = None"
| "handle_file_loop (Suc fuel) cfg ev wait_time k logfile counter failcount w =
     (if counter \<le> 3 then
        (case handle_file_pass cfg ev wait_time k logfile counter failcount w of
           Done out w' \<Rightarrow> Some (out, w')
         | Again logfile' counter' failcount' w' \<Rightarrow>
             handle_file_loop fuel cfg ev wait_time (Suc k) logfile' counter' failcount' w')
      else Some (Returned False, w))"

definition handle_file ::
  "nat \<Rightarrow> config \<Rightarrow> env \<Rightarrow> string \<Rightarrow> nat \<Rightarrow> world \<Rightarrow> (outcome \<times> world) option" where
  "handle_file fuel cfg ev logfile wait_time w = handle_file_loop fuel cfg ev wait_time 0 logfile 0 0 w"

text \<open>
  One pass of the \<open>while\<close> loop of \<open>get_log_files\<close>. The branch without a last id
  (the first scan of the index) is not followed. \<open>get_next_file_name\<close> is called
  outside the \<open>try\<close>: its exception ends the worker.
\<close>

datatype iteration = FirstScan | Crashed exn | Caught exn | Handled bool

definition end_sleep :: "env \<Rightarrow> world \<Rightarrow> world" where
  "end_sleep ev w = (if running_end ev then w\<lparr>slept := 3 # slept w\<rparr> else w)"

definition get_log_files_pass :: "nat \<Rightarrow> config \<Rightarrow> env \<Rightarrow> world \<Rightarrow> (iteration \<times> world) option" where
  "get_log_files_pass fuel cfg ev w =
     (if get_last_log_id w = [] then Some (FirstScan, w)
      else
        (case get_next_file_name w of
           Inl e \<Rightarrow> Some (Crashed e, w)
         | Inr next_file \<Rightarrow>
             (case handle_file fuel cfg ev next_file 3 w of
                None \<Rightarrow> None
              | Some (Raised e, w') \<Rightarrow> Some (Caught e, end_sleep ev w')
              | Some (Returned success, w') \<Rightarrow>
                  if success then
                    (case move_to_next_file w' of
                       Inl e \<Rightarrow> Some (Caught e, end_sleep ev w')
                     | Inr w'' \<Rightarrow> Some (Handled True, end_sleep ev w''))
                  else Some (Handled False, end_sleep ev w'))))"


section \<open>Concrete inputs\<close>

definition cfg0 :: config where
  \<comment> \<open>syslog and local persistence enabled, SFTP disabled\<close>
  "cfg0 = \<lparr>BASE_URL = ''https://logs.example/'', SYSLOG_ENABLE = ''YES'',
            SAVE_LOCALLY = ''YES'', SFTP_TRANSFER = ''NO''\<rparr>"

definition sinks_up :: sink_env where
  "sinks_up = \<lparr>syslog_ok = True, save_ok = True, sftp_ok = True, gzip_ok = True\<rparr>"

definition index59 :: string where
  \<comment> \<open>a listing of the files 5 to 9, each line ended by a newline\<close>
  "index59 = ''20230101_5.log'' @ [CHR 0x0A] @ ''20230101_6.log'' @ [CHR 0x0A] @
             ''20230101_7.log'' @ [CHR 0x0A] @ ''20230101_8.log'' @ [CHR 0x0A] @
             ''20230101_9.log'' @ [CHR 0x0A]"

definition ev_up :: env where
  \<comment> \<open>the remote store answers every download with 200 and a body that decrypts\<close>
  "ev_up = \<lparr>running_at = (\<lambda>k. True), running_sleep = (\<lambda>k. True), running_end = True,
            remote = (\<lambda>k url. Response 200 ''raw''),
            remote_index = (\<lambda>k. Inr index59),
            decrypt = (\<lambda>raw name. Inr ''plain''),
            sinks = (\<lambda>k. sinks_up)\<rparr>"

definition ev_401 :: env where
  \<comment> \<open>the remote store answers every download with 401\<close>
  "ev_401 = ev_up\<lparr>remote := (\<lambda>k url. Response 401 [])\<rparr>"

definition ev_404 :: env where
  \<comment> \<open>the remote store answers every download with 404 and lists the files 5 to 9\<close>
  "ev_404 = ev_up\<lparr>remote := (\<lambda>k url. Response 404 [])\<rparr>"

definition ev_down :: env where
  \<comment> \<open>the remote store cannot be reached\<close>
  "ev_down = ev_up\<lparr>remote := (\<lambda>k url. NoResponse)\<rparr>"

definition ev_empty :: env where
  \<comment> \<open>the remote store answers every download with 200 and an empty body\<close>
  "ev_empty = ev_up\<lparr>remote := (\<lambda>k url. Response 200 [])\<rparr>"

definition ev_rolled :: env where
  \<comment> \<open>the first download gets a 404, the later ones a body that decrypts\<close>
  "ev_rolled = ev_up\<lparr>remote := (\<lambda>k url. if k = 0 then Response 404 [] else Response 200 ''raw'')\<rparr>"

definition ev_corrupt :: env where
  \<comment> \<open>every download gets a body whose checksum verification fails\<close>
  "ev_corrupt = ev_up\<lparr>decrypt := (\<lambda>raw name. Inl (Exception ''Error while trying to decrypt the file''))\<rparr>"

definition pass_cursor :: "(iteration \<times> world) option \<Rightarrow> (iteration \<times> string option) option" where
  \<comment> \<open>the result of a pass of \<open>get_log_files\<close> and the cursor file after it\<close>
  "pass_cursor r = (case r of None \<Rightarrow> None | Some (it, w) \<Rightarrow> Some (it, cursor_file w))"




definition ev_rolled_corrupt :: env where
  \<comment> \<open>the first download gets a 404, the later ones a body whose verification fails\<close>
  "ev_rolled_corrupt = ev_rolled\<lparr>decrypt := (\<lambda>raw name. Inl (Exception ''Error while trying to decrypt the file''))\<rparr>"

definition pass_fail :: "(iteration \<times> world) option \<Rightarrow> string \<Rightarrow> string option" where
  \<comment> \<open>the file of that name in the \<open>fail\<close> folder after a pass of \<open>get_log_files\<close>\<close>
  "pass_fail r name = (case r of None \<Rightarrow> None | Some (it, w) \<Rightarrow> fail_dir w name)"

definition ev_syslog_down :: env where
  \<comment> \<open>downloads and decryption succeed, the syslog server cannot be reached\<close>
  "ev_syslog_down = ev_up\<lparr>sinks := (\<lambda>k. sinks_up\<lparr>syslog_ok := False\<rparr>)\<rparr>"

section \<open>Properties of the string operations\<close>

lemma rstrip_chars_id: "s = [] \<or> last s \<notin> set cs \<Longrightarrow> rstrip_chars cs s = s"
  by (cases s rule: rev_cases) (auto simp: rstrip_chars_def)



lemma digit_not_ws: "is_digit c \<Longrightarrow> c \<notin> set py_whitespace"
  by (auto simp: is_digit_def py_whitespace_def)


lemma digit_not_sign: "is_digit c \<Longrightarrow> c \<noteq> CHR ''+'' \<and> c \<noteq> CHR ''-'' \<and> c \<noteq> CHR ''_''"
  by (auto simp: is_digit_def)


lemma strip_digits: "ds \<noteq> [] \<Longrightarrow> list_all is_digit ds \<Longrightarrow> strip ds = ds"
proof -
  assume a: "ds \<noteq> []" "list_all is_digit ds"
  then have "last ds \<notin> set py_whitespace" "hd ds \<notin> set py_whitespace"
    by (auto simp: list_all_iff intro!: digit_not_ws)
  with a show ?thesis
    by (cases ds) (auto simp: strip_def lstrip_chars_def rstrip_chars_id)
qed

lemma py_int_digits: "ds \<noteq> [] \<Longrightarrow> list_all is_digit ds \<Longrightarrow> py_int ds = Inr (int (digits_val ds))"
  by (cases ds) (auto simp: py_int_def strip_digits dest: digit_not_sign)

text \<open>\<open>str\<close> and \<open>int\<close> are inverse on the natural numbers.\<close>

lemma lt10_cases:
  "d < (10::nat) \<Longrightarrow>
   d = 0 \<or> d = 1 \<or> d = 2 \<or> d = 3 \<or> d = 4 \<or> d = 5 \<or> d = 6 \<or> d = 7 \<or> d = 8 \<or> d = 9"
  by arith

lemma digit_char_is_digit: "d < 10 \<Longrightarrow> is_digit (digit_char d)"
  by (drule lt10_cases) (elim disjE; simp add: is_digit_def digit_char_def)

lemma digit_val_digit_char: "d < 10 \<Longrightarrow> digit_val (digit_char d) = d"
  by (drule lt10_cases) (elim disjE; simp add: digit_val_def digit_char_def)

lemma nat_digits_all: "list_all is_digit (nat_digits n)"
  by (induction n rule: nat_digits.induct) (subst nat_digits.simps, simp add: digit_char_is_digit)

lemma nat_digits_nonempty: "nat_digits n \<noteq> []"
  by (subst nat_digits.simps) simp

lemma digits_val_snoc: "digits_val (ds @ [c]) = 10 * digits_val ds + digit_val c"
  by (simp add: digits_val_def)

lemma digits_val_nat_digits: "digits_val (nat_digits n) = n"
proof (induction n rule: nat_digits.induct)
  case (1 n)
  show ?case
  proof (cases "n < 10")
    case True
    then show ?thesis
      by (subst nat_digits.simps) (simp add: digits_val_def digit_val_digit_char)
  next
    case False
    with 1 show ?thesis
      by (subst nat_digits.simps) (simp add: digits_val_snoc digit_val_digit_char)
  qed
qed

lemma py_int_py_str: "0 \<le> i \<Longrightarrow> py_int (py_str i) = Inr i"
  by (simp add: py_str_def py_int_digits nat_digits_all nat_digits_nonempty digits_val_nat_digits)


text \<open>
  What \<open>rstrip\<close> removes: the longest run of characters of the set at the end.
\<close>

lemma rstrip_chars_split:
  "\<exists>t. s = rstrip_chars cs s @ t \<and> list_all (\<lambda>c. c \<in> set cs) t"
proof -
  have "rev s = takeWhile (\<lambda>c. c \<in> set cs) (rev s) @ dropWhile (\<lambda>c. c \<in> set cs) (rev s)"
    by simp
  then have "s = rev (dropWhile (\<lambda>c. c \<in> set cs) (rev s)) @ rev (takeWhile (\<lambda>c. c \<in> set cs) (rev s))"
    by (metis rev_append rev_rev_ident)
  moreover have "list_all (\<lambda>c. c \<in> set cs) (rev (takeWhile (\<lambda>c. c \<in> set cs) (rev s)))"
    by (auto simp: list_all_iff dest: set_takeWhileD)
  ultimately show ?thesis unfolding rstrip_chars_def by blast
qed

lemma rstrip_chars_last:
  "rstrip_chars cs s = [] \<or> last (rstrip_chars cs s) \<notin> set cs"
proof (cases "dropWhile (\<lambda>c. c \<in> set cs) (rev s)")
  case Nil
  then show ?thesis by (simp add: rstrip_chars_def)
next
  case (Cons x xs)
  then have "x \<notin> set cs" using hd_dropWhile [of "\<lambda>c. c \<in> set cs" "rev s"] by simp
  with Cons show ?thesis by (simp add: rstrip_chars_def)
qed

lemma rstrip_chars_unique:
  assumes "s = r @ t" and "list_all (\<lambda>c. c \<in> set cs) t" and "r = [] \<or> last r \<notin> set cs"
  shows "rstrip_chars cs s = r"
proof -
  have "dropWhile (\<lambda>c. c \<in> set cs) (rev t @ rev r) = dropWhile (\<lambda>c. c \<in> set cs) (rev r)"
    using assms(2) by (intro dropWhile_append2) (simp add: list_all_iff)
  moreover have "dropWhile (\<lambda>c. c \<in> set cs) (rev r) = rev r"
    using assms(3) by (cases r rule: rev_cases) auto
  ultimately show ?thesis using assms(1) by (simp add: rstrip_chars_def)
qed


section \<open>The cursor store\<close>

text \<open>
  Claim C10. Writing a string \<open>s\<close> with \<open>update_last_log_id\<close> and reading it back with
  \<open>get_last_log_id\<close> gives \<open>s\<close> without its trailing whitespace: \<open>s\<close> is the result
  followed only by bytes among space, tab, line feed, carriage return, vertical tab
  and form feed, and the result is empty or ends in another byte. The round trip is
  the identity on every string that does not end in whitespace.
\<close>

theorem cursor_round_trip:
  "(\<exists>t. s = get_last_log_id (update_last_log_id s w) @ t \<and>
        list_all (\<lambda>c. c \<in> {CHR 0x20, CHR 0x09, CHR 0x0A, CHR 0x0D, CHR 0x0B, CHR 0x0C}) t) \<and>
   (get_last_log_id (update_last_log_id s w) = [] \<or>
    last (get_last_log_id (update_last_log_id s w))
      \<notin> {CHR 0x20, CHR 0x09, CHR 0x0A, CHR 0x0D, CHR 0x0B, CHR 0x0C}) \<and>
   get_last_log_id (update_last_log_id s w) = rstrip s \<and>
   (s = [] \<or> last s \<notin> set py_whitespace \<longrightarrow> get_last_log_id (update_last_log_id s w) = s)"
proof -
  have g: "get_last_log_id (update_last_log_id s w) = rstrip_chars py_whitespace s"
    by (simp add: get_last_log_id_def update_last_log_id_def rstrip_def)
  have ws: "set py_whitespace = {CHR 0x20, CHR 0x09, CHR 0x0A, CHR 0x0D, CHR 0x0B, CHR 0x0C}"
    by (simp add: py_whitespace_def)
  show ?thesis
    unfolding g
    using rstrip_chars_split [of s py_whitespace] rstrip_chars_last [of py_whitespace s]
      rstrip_chars_id [of s py_whitespace]
    by (simp add: ws rstrip_def)
qed

theorem cursor_round_trip_witness:
  "get_last_log_id (update_last_log_id (''X_5.log'' @ [CHR 0x0A]) world0) = ''X_5.log'' \<and>
   get_last_log_id (update_last_log_id (''X_5.log '' @ [CHR 0x09, CHR 0x0D, CHR 0x0A]) world0) = ''X_5.log'' \<and>
   last ''20230101_5.log'' \<notin> set py_whitespace \<and>
   get_last_log_id (update_last_log_id ''20230101_5.log'' world0) = ''20230101_5.log''"
proof -
  have a: "last ''20230101_5.log'' \<notin> set py_whitespace"
    by (simp add: py_whitespace_def)
  have b: "rstrip (''X_5.log'' @ [CHR 0x0A]) = ''X_5.log''"
    "rstrip (''X_5.log '' @ [CHR 0x09, CHR 0x0D, CHR 0x0A]) = ''X_5.log''"
    by (simp_all add: rstrip_def rstrip_chars_def py_whitespace_def)
  from cursor_round_trip [of "''20230101_5.log''" world0] a
  have 1: "get_last_log_id (update_last_log_id ''20230101_5.log'' world0) = ''20230101_5.log''"
    by blast
  from cursor_round_trip [of "''X_5.log'' @ [CHR 0x0A]" world0]
  have 2: "get_last_log_id (update_last_log_id (''X_5.log'' @ [CHR 0x0A]) world0)
      = rstrip (''X_5.log'' @ [CHR 0x0A])"
    by blast
  from cursor_round_trip [of "''X_5.log '' @ [CHR 0x09, CHR 0x0D, CHR 0x0A]" world0]
  have 3: "get_last_log_id (update_last_log_id (''X_5.log '' @ [CHR 0x09, CHR 0x0D, CHR 0x0A]) world0)
      = rstrip (''X_5.log '' @ [CHR 0x09, CHR 0x0D, CHR 0x0A])"
    by blast
  from 1 2 3 a show ?thesis unfolding b by blast
qed








section \<open>The index service\<close>

text \<open>
  Claim C6. The validation of the index listing is to reject a content in which any
  line is not \<open><digits>_<digits>.log\<close>. \<open>re.match\<close> anchors the pattern at the
  start only, so one conforming first line is enough: the content below, whose second
  line is \<open>garbage\<close>, is accepted.
\<close>

theorem index_validation_accepts_bad_line:
  "validate_logs_index_file_format (''1_1.log'' @ [CHR 0x0A] @ ''garbage'' @ [CHR 0x0A]) = True"
  by code_simp


text \<open>
  More generally, a content that starts with one well-formed line is accepted,
  whatever follows; in particular every non-empty listing of well-formed lines is.
\<close>

lemma accepts_prefix: "accepts r s \<Longrightarrow> re_match r (s @ t)"
proof (induction s arbitrary: r)
  case Nil
  then show ?case by (cases t) simp_all
next
  case (Cons c s)
  then show ?case by simp
qed

lemma accepts_Nul [simp]: "accepts Nul s = False"
  by (induction s) simp_all

lemma accepts_Alt [simp]: "accepts (Alt r s) w = (accepts r w \<or> accepts s w)"
  by (induction w arbitrary: r s) simp_all

lemma accepts_Cat: "accepts r u \<Longrightarrow> accepts s v \<Longrightarrow> accepts (Cat r s) (u @ v)"
proof (induction u arbitrary: r)
  case Nil
  then show ?case by (cases v) simp_all
next
  case (Cons c u)
  then show ?case by simp
qed

lemma accepts_Star_Nil [simp]: "accepts (Star r) []"
  by simp

lemma accepts_Star: "accepts r u \<Longrightarrow> accepts (Star r) v \<Longrightarrow> accepts (Star r) (u @ v)"
proof (cases u)
  case Nil
  then show "accepts (Star r) v \<Longrightarrow> accepts (Star r) (u @ v)" by simp
next
  case (Cons c u')
  assume "accepts r u" "accepts (Star r) v"
  with Cons show "accepts (Star r) (u @ v)" by (simp add: accepts_Cat)
qed

lemma accepts_plus: "accepts r u \<Longrightarrow> accepts (Star r) v \<Longrightarrow> accepts (rx_plus r) (u @ v)"
  by (simp add: rx_plus_def accepts_Cat)

lemma accepts_digits_star: "list_all is_digit ds \<Longrightarrow> accepts (Star Digit) ds"
proof (induction ds)
  case Nil
  show ?case by simp
next
  case (Cons d ds)
  then have "accepts Digit [d]" "accepts (Star Digit) ds" by simp_all
  then have "accepts (Star Digit) ([d] @ ds)" by (rule accepts_Star)
  then show ?case by simp
qed

lemma accepts_digits: "ds \<noteq> [] \<Longrightarrow> list_all is_digit ds \<Longrightarrow> accepts (rx_plus Digit) ds"
proof (cases ds)
  case Nil
  then show "ds \<noteq> [] \<Longrightarrow> accepts (rx_plus Digit) ds" by simp
next
  case (Cons d ds')
  assume "list_all is_digit ds"
  with Cons have "accepts Digit [d]" "accepts (Star Digit) ds'"
    by (simp_all add: accepts_digits_star)
  then have "accepts (rx_plus Digit) ([d] @ ds')" by (rule accepts_plus)
  with Cons show "accepts (rx_plus Digit) ds" by simp
qed

lemma accepts_Cat_Nul [simp]: "accepts (Cat Nul r) s = False"
  by (induction s) simp_all

lemma accepts_Cat_Eps [simp]: "accepts (Cat Eps r) s = accepts r s"
  by (cases s) simp_all

lemma accepts_lit: "accepts (rx_lit s) s"
  by (induction s) (simp_all add: rx_lit_def)

lemma accepts_index_line:
  assumes "p \<noteq> []" "list_all is_digit p" "n \<noteq> []" "list_all is_digit n"
  shows "accepts (Cat (rx_plus Digit) (Cat (Lit (CHR ''_''))
           (Cat (rx_plus Digit) (rx_lit (''.log'' @ [CHR 0x0A]))))) (index_line p n)"
proof -
  have dp: "accepts (rx_plus Digit) p" and dn: "accepts (rx_plus Digit) n"
    using assms by (simp_all add: accepts_digits)
  have u: "accepts (Lit (CHR ''_'')) ''_''" by simp
  have 1: "accepts (Cat (rx_plus Digit) (rx_lit (''.log'' @ [CHR 0x0A]))) (n @ (''.log'' @ [CHR 0x0A]))"
    by (rule accepts_Cat [OF dn accepts_lit])
  have 2: "accepts (Cat (Lit (CHR ''_'')) (Cat (rx_plus Digit) (rx_lit (''.log'' @ [CHR 0x0A]))))
      (''_'' @ (n @ (''.log'' @ [CHR 0x0A])))"
    by (rule accepts_Cat [OF u 1])
  have "accepts (Cat (rx_plus Digit) (Cat (Lit (CHR ''_''))
           (Cat (rx_plus Digit) (rx_lit (''.log'' @ [CHR 0x0A])))))
      (p @ (''_'' @ (n @ (''.log'' @ [CHR 0x0A]))))"
    by (rule accepts_Cat [OF dp 2])
  then show ?thesis by (simp add: index_line_def)
qed

lemma index_validation_accepts_first_line:
  assumes "p \<noteq> []" "list_all is_digit p" "n \<noteq> []" "list_all is_digit n"
  shows "validate_logs_index_file_format (index_line p n @ rest) = True"
proof -
  have "accepts (Star (Cat (rx_plus Digit) (Cat (Lit (CHR ''_''))
           (Cat (rx_plus Digit) (rx_lit (''.log'' @ [CHR 0x0A])))))) []"
    by simp
  with accepts_index_line [OF assms] have "accepts logs_index_rx (index_line p n @ [])"
    unfolding logs_index_rx_def by (rule accepts_plus)
  then show ?thesis
    by (simp add: validate_logs_index_file_format_def accepts_prefix)
qed


section \<open>The delivery dispatcher\<close>

text \<open>
  Claim C7, as amended. Whether the dispatcher raises does not depend on the SFTP
  upload or on the compression: \<open>sftp_upload_file\<close> and \<open>gzip_file\<close> catch their
  own failures. A failure of the syslog emission or of the local persistence is not
  caught: it leaves the dispatcher as an exception and no later step runs. A file
  that was downloaded and decrypted and whose syslog emission or local persistence
  fails is written to the \<open>fail\<close> folder, and \<open>handle_file\<close> returns \<open>False\<close>.
\<close>

theorem dispatcher_isolation:
  "snd (handle_log_decrypted_content cfg (se\<lparr>sftp_ok := a, gzip_ok := b\<rparr>))
     = snd (handle_log_decrypted_content cfg se) \<and>
   (SYSLOG_ENABLE cfg = ''YES'' \<and> syslog_ok se = False
      \<longrightarrow> handle_log_decrypted_content cfg se = ([(Syslog, False)], Some IOError)) \<and>
   (SYSLOG_ENABLE cfg \<noteq> ''YES'' \<and> SAVE_LOCALLY cfg = ''YES'' \<and> save_ok se = False
      \<longrightarrow> handle_log_decrypted_content cfg se = ([(LocalSave, False)], Some IOError)) \<and>
   (SYSLOG_ENABLE cfg = ''YES'' \<and> syslog_ok se \<and> SAVE_LOCALLY cfg = ''YES'' \<and> save_ok se = False
      \<longrightarrow> handle_log_decrypted_content cfg se = ([(Syslog, True), (LocalSave, False)], Some IOError)) \<and>
   (counter \<le> 3 \<and> running_at ev k \<and>
    download_log_file cfg (remote ev k) logfile = Tuple ''OK'' (PyStr raw) \<and>
    decrypt ev raw logfile = Inr plain \<and>
    (SYSLOG_ENABLE cfg = ''YES'' \<and> syslog_ok (sinks ev k) = False \<or>
     SAVE_LOCALLY cfg = ''YES'' \<and> save_ok (sinks ev k) = False)
      \<longrightarrow> handle_file_loop (Suc fuel) cfg ev wait_time k logfile counter failcount w
            = Some (Returned False,
                    w\<lparr>requested := rstrip_chars [CHR 0x0D, CHR 0x0A] logfile # requested w,
                      fail_dir := (fail_dir w)(logfile \<mapsto> raw)\<rparr>))"
proof -
  have d: "SYSLOG_ENABLE cfg = ''YES'' \<and> syslog_ok (sinks ev k) = False \<or>
       SAVE_LOCALLY cfg = ''YES'' \<and> save_ok (sinks ev k) = False \<Longrightarrow>
     snd (handle_log_decrypted_content cfg (sinks ev k)) = Some IOError"
    by (auto simp: handle_log_decrypted_content_def Let_def)
  have h: "handle_file_loop (Suc fuel) cfg ev wait_time k logfile counter failcount w
            = Some (Returned False,
                    w\<lparr>requested := rstrip_chars [CHR 0x0D, CHR 0x0A] logfile # requested w,
                      fail_dir := (fail_dir w)(logfile \<mapsto> raw)\<rparr>)"
    if "counter \<le> 3" "running_at ev k"
      "download_log_file cfg (remote ev k) logfile = Tuple ''OK'' (PyStr raw)"
      "decrypt ev raw logfile = Inr plain"
      "SYSLOG_ENABLE cfg = ''YES'' \<and> syslog_ok (sinks ev k) = False \<or>
       SAVE_LOCALLY cfg = ''YES'' \<and> save_ok (sinks ev k) = False"
    using that d
    by (simp add: handle_file_pass_def result0_def result1_def save_to_fail_def process_file_def
        decrypt_file_def)
  have i: "snd (handle_log_decrypted_content cfg (se\<lparr>sftp_ok := a, gzip_ok := b\<rparr>))
     = snd (handle_log_decrypted_content cfg se) \<and>
   (SYSLOG_ENABLE cfg = ''YES'' \<and> syslog_ok se = False
      \<longrightarrow> handle_log_decrypted_content cfg se = ([(Syslog, False)], Some IOError)) \<and>
   (SYSLOG_ENABLE cfg \<noteq> ''YES'' \<and> SAVE_LOCALLY cfg = ''YES'' \<and> save_ok se = False
      \<longrightarrow> handle_log_decrypted_content cfg se = ([(LocalSave, False)], Some IOError)) \<and>
   (SYSLOG_ENABLE cfg = ''YES'' \<and> syslog_ok se \<and> SAVE_LOCALLY cfg = ''YES'' \<and> save_ok se = False
      \<longrightarrow> handle_log_decrypted_content cfg se = ([(Syslog, True), (LocalSave, False)], Some IOError))"
    by (simp add: handle_log_decrypted_content_def Let_def)
  from i h show ?thesis by blast
qed

theorem dispatcher_isolation_witness:
  "handle_log_decrypted_content cfg0 (sinks_up\<lparr>syslog_ok := False\<rparr>) = ([(Syslog, False)], Some IOError) \<and>
   handle_log_decrypted_content (cfg0\<lparr>SYSLOG_ENABLE := ''NO''\<rparr>) (sinks_up\<lparr>save_ok := False\<rparr>)
     = ([(LocalSave, False)], Some IOError) \<and>
   handle_log_decrypted_content cfg0 (sinks_up\<lparr>save_ok := False\<rparr>)
     = ([(Syslog, True), (LocalSave, False)], Some IOError) \<and>
   handle_file_loop (Suc 0) cfg0 ev_syslog_down 3 0 ''20230101_3.log'' 0 0 world0
     = Some (Returned False,
             world0\<lparr>requested := rstrip_chars [CHR 0x0D, CHR 0x0A] ''20230101_3.log'' # requested world0,
                    fail_dir := (fail_dir world0)(''20230101_3.log'' \<mapsto> ''raw'')\<rparr>)"
proof -
  have h: "(0::nat) \<le> 3 \<and> running_at ev_syslog_down 0 \<and>
    download_log_file cfg0 (remote ev_syslog_down 0) ''20230101_3.log'' = Tuple ''OK'' (PyStr ''raw'') \<and>
    decrypt ev_syslog_down ''raw'' ''20230101_3.log'' = Inr ''plain'' \<and>
    (SYSLOG_ENABLE cfg0 = ''YES'' \<and> syslog_ok (sinks ev_syslog_down 0) = False \<or>
     SAVE_LOCALLY cfg0 = ''YES'' \<and> save_ok (sinks ev_syslog_down 0) = False)"
    by (simp add: ev_syslog_down_def ev_up_def cfg0_def sinks_up_def download_log_file_def
        request_file_content_def raise_for_status_def)
  from dispatcher_isolation [where cfg = cfg0 and ev = ev_syslog_down and k = 0 and counter = 0
      and logfile = "''20230101_3.log''" and raw = "''raw''" and plain = "''plain''"
      and fuel = 0 and wait_time = 3 and failcount = 0 and w = world0] h
  have 4: "handle_file_loop (Suc 0) cfg0 ev_syslog_down 3 0 ''20230101_3.log'' 0 0 world0
     = Some (Returned False,
             world0\<lparr>requested := rstrip_chars [CHR 0x0D, CHR 0x0A] ''20230101_3.log'' # requested world0,
                    fail_dir := (fail_dir world0)(''20230101_3.log'' \<mapsto> ''raw'')\<rparr>)"
    by blast
  have 123: "handle_log_decrypted_content cfg0 (sinks_up\<lparr>syslog_ok := False\<rparr>) = ([(Syslog, False)], Some IOError) \<and>
   handle_log_decrypted_content (cfg0\<lparr>SYSLOG_ENABLE := ''NO''\<rparr>) (sinks_up\<lparr>save_ok := False\<rparr>)
     = ([(LocalSave, False)], Some IOError) \<and>
   handle_log_decrypted_content cfg0 (sinks_up\<lparr>save_ok := False\<rparr>)
     = ([(Syslog, True), (LocalSave, False)], Some IOError)"
    using dispatcher_isolation [where cfg = cfg0 and se = "sinks_up\<lparr>syslog_ok := False\<rparr>"]
      dispatcher_isolation [where cfg = "cfg0\<lparr>SYSLOG_ENABLE := ''NO''\<rparr>" and se = "sinks_up\<lparr>save_ok := False\<rparr>"]
      dispatcher_isolation [where cfg = cfg0 and se = "sinks_up\<lparr>save_ok := False\<rparr>"]
    by (simp add: cfg0_def sinks_up_def)
  from 123 4 show ?thesis by blast
qed

theorem syslog_failure_not_isolated:
  "handle_log_decrypted_content cfg0 (sinks_up\<lparr>syslog_ok := False\<rparr>) = ([(Syslog, False)], Some IOError) \<and>
   process_file cfg0 (ev_up\<lparr>sinks := (\<lambda>k. sinks_up\<lparr>syslog_ok := False\<rparr>)\<rparr>) 0 ''20230101_3.log'' (PyStr ''raw'')
     = Some IOError"
  by (simp add: handle_log_decrypted_content_def process_file_def decrypt_file_def cfg0_def sinks_up_def ev_up_def)


section \<open>The remote store\<close>

lemma download_401_429:
  "code = 401 \<or> code = 429 \<Longrightarrow> download_log_file cfg (\<lambda>u. Response code body) filename = Bare ''ERROR''"
  by (auto simp: download_log_file_def request_file_content_def raise_for_status_def Let_def)

text \<open>
  Claim C2, as amended. On a 401 \<open>request_file_content\<close> raises
  \<open>Exception("Authorization error")\<close> and on a 429 \<open>Exception("Rate limit error")\<close>.
  \<open>download_log_file\<close> catches either and returns \<open>"ERROR"\<close>, and the pass of the
  loop of \<open>handle_file\<close> that got it neither returns nor raises: the loop goes on with
  the same file.
\<close>

theorem auth_and_rate_limit_caught:
  "request_file_content (Response 401 body) = Inl (Exception ''Authorization error'') \<and>
   request_file_content (Response 429 body) = Inl (Exception ''Rate limit error'') \<and>
   download_log_file cfg (\<lambda>u. Response 401 body) filename = Bare ''ERROR'' \<and>
   download_log_file cfg (\<lambda>u. Response 429 body) filename = Bare ''ERROR'' \<and>
   (running_at ev k \<and> (remote ev k = (\<lambda>u. Response 401 body) \<or> remote ev k = (\<lambda>u. Response 429 body))
     \<longrightarrow> (\<exists>counter' w'. handle_file_pass cfg ev wait_time k logfile counter failcount w
                           = Again logfile counter' failcount w'))"
  by (auto simp: request_file_content_def raise_for_status_def download_401_429
        handle_file_pass_def result0_def Let_def)

theorem auth_and_rate_limit_caught_witness:
  "\<exists>counter' w'. handle_file_pass cfg0 ev_401 3 0 ''20230101_3.log'' 0 0 world0
       = Again ''20230101_3.log'' counter' 0 w'"
  using auth_and_rate_limit_caught [where body = "[]" and ev = ev_401 and k = 0 and cfg = cfg0
      and wait_time = 3 and logfile = "''20230101_3.log''" and counter = 0 and failcount = 0
      and w = world0]
  by (simp add: ev_401_def ev_up_def)

theorem auth_error_not_fatal:
  "handle_file_pass cfg0 ev_401 3 0 ''20230101_3.log'' 0 0 world0
     = Again ''20230101_3.log'' 0 0 (world0\<lparr>requested := [''20230101_3.log''], slept := [3]\<rparr>)"
  by (simp add: handle_file_pass_def download_401_429 result0_def Let_def ev_401_def ev_up_def
      retry_sleep_def world0_def rstrip_chars_def)


section \<open>The 404 resynchronisation\<close>

lemma retry_sleep_fields [simp]:
  "cursor_file (retry_sleep ev k wait_time counter w) = cursor_file w"
  "fail_dir (retry_sleep ev k wait_time counter w) = fail_dir w"
  "requested (retry_sleep ev k wait_time counter w) = requested w"
  by (simp_all add: retry_sleep_def)


lemma retry_sleep_writes [simp]:
  "cursor_writes (retry_sleep ev k wait_time counter w) = cursor_writes w"
  by (simp add: retry_sleep_def)

lemma end_sleep_cursor [simp]: "cursor_file (end_sleep ev w) = cursor_file w"
  by (simp add: end_sleep_def)

lemma end_sleep_fail [simp]: "fail_dir (end_sleep ev w) = fail_dir w"
  by (simp add: end_sleep_def)

lemma end_sleep_writes [simp]: "cursor_writes (end_sleep ev w) = cursor_writes w"
  by (simp add: end_sleep_def)

lemma neg2_Cons: "rest \<noteq> [] \<Longrightarrow> \<exists>l. neg2 (x # rest) = Inr l"
  by (cases rest) (auto simp: neg2_def)

lemma split_index59: "split_on (CHR 0x0A) index59 = [''20230101_5.log'', ''20230101_6.log'', ''20230101_7.log'', ''20230101_8.log'', ''20230101_9.log'', []]"
  by code_simp

text \<open>
  Claim C8. A pass of the loop of \<open>handle_file\<close> whose download got a 404 fetches
  the index; with \<open>first_logfile\<close> its first line, and the listing long enough
  to have a second-to-last line, a file whose sequence number is below that of
  \<open>first_logfile\<close> makes the pass write \<open>first_logfile\<close> to the cursor file and go
  on with it.
\<close>

theorem resync_rolled_off:
  assumes "running_at ev k"
    and "result0 (download_log_file cfg (remote ev k) logfile) = ''404_NOT_FOUND''"
    and "remote_index ev k = Inr data"
    and "split_on (CHR 0x0A) data = first_logfile # rest" and "rest \<noteq> []"
    and "file_seq logfile = Inr a" and "file_seq first_logfile = Inr b" and "a < b"
  shows "\<exists>w'. handle_file_pass cfg ev wait_time k logfile counter failcount w
                = Again first_logfile (counter + 1) failcount w' \<and>
              cursor_file w' = Some first_logfile \<and>
              get_last_log_id w' = rstrip first_logfile"
proof -
  obtain l where l: "neg2 (first_logfile # rest) = Inr l"
    using neg2_Cons [OF assms(5)] by blast
  have "resync_404 ev k logfile failcount w'
      = Inr (first_logfile, failcount, update_last_log_id first_logfile w')" for w'
    using assms l by (simp add: resync_404_def)
  with assms(1,2) show ?thesis
    by (simp add: handle_file_pass_def Let_def update_last_log_id_def get_last_log_id_def)
qed

theorem resync_rolled_off_witness:
  "\<exists>w'. handle_file_pass cfg0 ev_404 3 0 ''20230101_3.log'' 0 0 (update_last_log_id ''20230101_2.log'' world0)
          = Again ''20230101_5.log'' (0 + 1) 0 w' \<and>
        cursor_file w' = Some ''20230101_5.log'' \<and>
        get_last_log_id w' = rstrip ''20230101_5.log''"
proof -
  have 1: "running_at ev_404 0" by (simp add: ev_404_def ev_up_def)
  have 2: "result0 (download_log_file cfg0 (remote ev_404 0) ''20230101_3.log'') = ''404_NOT_FOUND''"
    by (simp add: ev_404_def ev_up_def download_log_file_def request_file_content_def
        raise_for_status_def result0_def Let_def)
  have 3: "remote_index ev_404 0 = Inr index59" by (simp add: ev_404_def ev_up_def)
  have 4: "split_on (CHR 0x0A) index59 = ''20230101_5.log'' #
      [''20230101_6.log'', ''20230101_7.log'', ''20230101_8.log'', ''20230101_9.log'', []]"
    by code_simp
  have 5: "[''20230101_6.log'', ''20230101_7.log'', ''20230101_8.log'', ''20230101_9.log'', []] \<noteq> []"
    by simp
  have 6: "file_seq ''20230101_3.log'' = Inr 3" "file_seq ''20230101_5.log'' = Inr 5"
    by code_simp+
  have 7: "(3::int) < 5" by simp
  show ?thesis
    by (rule resync_rolled_off [OF 1 2 3 4 5 6 7])
qed

text \<open>
  In the loop of \<open>handle_file\<close> \<open>failcount\<close> never exceeds \<open>counter\<close>: both start
  at 0 and a pass that increments \<open>failcount\<close> has incremented \<open>counter\<close> before.
\<close>

lemma resync_failcount:
  "resync_404 ev k logfile failcount w = Inr (logfile', failcount', w') \<Longrightarrow>
   failcount \<le> failcount' \<and> failcount' \<le> failcount + 1"
  by (auto simp: resync_404_def split: sum.splits list.splits if_splits)

lemma pass_failcount_le_counter:
  assumes "handle_file_pass cfg ev wait_time k logfile counter failcount w
             = Again logfile' counter' failcount' w'"
    and "failcount \<le> counter"
  shows "failcount' \<le> counter'"
proof (cases "result0 (download_log_file cfg (remote ev k) logfile) = ''404_NOT_FOUND''")
  case True
  with assms show ?thesis
    by (auto simp: handle_file_pass_def Let_def split: if_splits sum.splits dest!: resync_failcount)
next
  case False
  with assms show ?thesis
    by (auto simp: handle_file_pass_def Let_def split: if_splits option.splits sum.splits)
qed




section \<open>The retry loop of handle_file\<close>

lemma pass_transport_error:
  assumes "running_at ev k" and "\<forall>u. remote ev k u = NoResponse"
  shows "handle_file_pass cfg ev wait_time k logfile counter failcount w
     = Again logfile counter failcount
         (retry_sleep ev k wait_time counter
            (w\<lparr>requested := rstrip_chars [CHR 0x0D, CHR 0x0A] logfile # requested w\<rparr>))"
  using assms
  by (simp add: handle_file_pass_def download_log_file_def request_file_content_def result0_def Let_def)

lemma loop_transport_error:
  assumes "\<forall>k. running_at ev k" and "\<forall>k u. remote ev k u = NoResponse" and "counter \<le> 3"
  shows "handle_file_loop fuel cfg ev wait_time k logfile counter failcount w = None"
  using assms
proof (induction fuel arbitrary: k w)
  case 0
  show ?case by simp
next
  case (Suc fuel)
  then show ?case by (simp add: pass_transport_error)
qed

text \<open>
  Claim C1. A download that fails with a connection error is to count as an attempt,
  so that \<open>handle_file\<close> gives up after four of them. \<open>download_log_file\<close> returns
  the bare string \<open>"ERROR"\<close> from its exception handler, \<open>result[0]\<close> is then
  \<open>"E"\<close>, and no branch of \<open>handle_file\<close> matches: the pass leaves \<open>counter\<close> as
  it is. While the store cannot be reached and the downloader is running, no amount
  of fuel makes \<open>handle_file\<close> return.
\<close>

theorem transport_errors_never_counted:
  assumes "\<forall>k. running_at ev k" and "\<forall>k u. remote ev k u = NoResponse"
  shows "handle_file fuel cfg ev logfile wait_time w = None \<and>
         (\<exists>w'. handle_file_pass cfg ev wait_time k logfile counter failcount w
                  = Again logfile counter failcount w')"
  using assms by (simp add: handle_file_def loop_transport_error pass_transport_error)

theorem transport_errors_never_counted_witness:
  "handle_file 1000 cfg0 ev_down ''20230101_3.log'' 3 world0 = None \<and>
   (\<exists>w'. handle_file_pass cfg0 ev_down 3 0 ''20230101_3.log'' 0 0 world0
            = Again ''20230101_3.log'' 0 0 w')"
proof -
  have 1: "\<forall>k. running_at ev_down k" by (simp add: ev_down_def ev_up_def)
  have 2: "\<forall>k u. remote ev_down k u = NoResponse" by (simp add: ev_down_def ev_up_def)
  show ?thesis by (rule transport_errors_never_counted [OF 1 2])
qed

text \<open>
  The other half of the claim holds: an empty answer (\<open>NOT_FOUND\<close>) is counted, and
  after four downloads \<open>handle_file\<close> returns \<open>False\<close> with the cursor untouched.
\<close>

lemma pass_not_found:
  assumes "running_at ev k" and "\<forall>u. remote ev k u = Response 200 []"
  shows "handle_file_pass cfg ev wait_time k logfile counter failcount w
     = Again logfile (counter + 1) failcount
         (retry_sleep ev k wait_time (counter + 1)
            (w\<lparr>requested := rstrip_chars [CHR 0x0D, CHR 0x0A] logfile # requested w\<rparr>))"
  using assms
  by (simp add: handle_file_pass_def download_log_file_def request_file_content_def
      raise_for_status_def result0_def Let_def)

lemma handle_file_not_found_budget:
  assumes "\<forall>k. running_at ev k" and "\<forall>k u. remote ev k u = Response 200 []"
  shows "\<exists>w'. handle_file (Suc (Suc (Suc (Suc (Suc n))))) cfg ev logfile wait_time w
                 = Some (Returned False, w') \<and>
              requested w' = replicate 4 (rstrip_chars [CHR 0x0D, CHR 0x0A] logfile) @ requested w \<and>
              cursor_file w' = cursor_file w"
  using assms by (simp add: handle_file_def pass_not_found numeral_eq_Suc)

text \<open>
  Claim C4, as amended. When a pass of the loop downloads a content \<open>raw\<close> (\<open>"OK"\<close>)
  and decryption or delivery raises, \<open>handle_file\<close> writes \<open>raw\<close> to the \<open>fail\<close>
  folder under the name of the file of that pass and returns \<open>False\<close> at once: one
  request more, no sleep, no write of the cursor. \<open>get_log_files\<close> writes no cursor
  after a failure either, so the cursor file is what it was when the failing pass
  began. An earlier pass of the same call that got a 404 may have moved it before,
  even onto the file that is then put in the \<open>fail\<close> folder.
\<close>

theorem processing_failure_quarantined:
  assumes "counter \<le> 3" and "running_at ev k"
    and "download_log_file cfg (remote ev k) logfile = Tuple ''OK'' (PyStr raw)"
    and "process_file cfg ev k logfile (PyStr raw) = Some e"
  shows "handle_file_loop (Suc fuel) cfg ev wait_time k logfile counter failcount w
           = Some (Returned False,
                   w\<lparr>requested := rstrip_chars [CHR 0x0D, CHR 0x0A] logfile # requested w,
                     fail_dir := (fail_dir w)(logfile \<mapsto> raw)\<rparr>) \<and>
         (get_last_log_id start \<noteq> [] \<and> get_next_file_name start = Inr next_file \<and>
          handle_file n cfg ev next_file 3 start
            = handle_file_loop (Suc fuel) cfg ev wait_time k logfile counter failcount w
            \<longrightarrow> (\<exists>w'. get_log_files_pass n cfg ev start = Some (Handled False, w') \<and>
                       cursor_file w' = cursor_file w \<and> cursor_writes w' = cursor_writes w \<and>
                       fail_dir w' logfile = Some raw))"
proof -
  have l: "handle_file_loop (Suc fuel) cfg ev wait_time k logfile counter failcount w
           = Some (Returned False,
                   w\<lparr>requested := rstrip_chars [CHR 0x0D, CHR 0x0A] logfile # requested w,
                     fail_dir := (fail_dir w)(logfile \<mapsto> raw)\<rparr>)"
    using assms
    by (simp add: handle_file_pass_def result0_def result1_def save_to_fail_def)
  have "\<exists>w'. get_log_files_pass n cfg ev start = Some (Handled False, w') \<and>
             cursor_file w' = cursor_file w \<and> cursor_writes w' = cursor_writes w \<and>
             fail_dir w' logfile = Some raw"
    if "get_last_log_id start \<noteq> []" "get_next_file_name start = Inr next_file"
      "handle_file n cfg ev next_file 3 start
         = handle_file_loop (Suc fuel) cfg ev wait_time k logfile counter failcount w"
    using that l by (simp add: get_log_files_pass_def)
  with l show ?thesis by blast
qed

theorem processing_failure_quarantined_witness:
  "handle_file_loop (Suc 0) cfg0 ev_corrupt 3 0 ''20230101_3.log'' 0 0
       (update_last_log_id ''20230101_2.log'' world0)
     = Some (Returned False,
             (update_last_log_id ''20230101_2.log'' world0)
               \<lparr>requested := rstrip_chars [CHR 0x0D, CHR 0x0A] ''20230101_3.log'' #
                    requested (update_last_log_id ''20230101_2.log'' world0),
                fail_dir := (fail_dir (update_last_log_id ''20230101_2.log'' world0))
                    (''20230101_3.log'' \<mapsto> ''raw'')\<rparr>) \<and>
   (\<exists>w'. get_log_files_pass (Suc 0) cfg0 ev_corrupt (update_last_log_id ''20230101_2.log'' world0)
            = Some (Handled False, w') \<and>
          cursor_file w' = Some ''20230101_2.log'' \<and>
          fail_dir w' ''20230101_3.log'' = Some ''raw'') \<and>
   (\<exists>w'. get_log_files_pass (Suc (Suc 0)) cfg0 ev_rolled_corrupt
              (update_last_log_id ''20230101_2.log'' world0)
            = Some (Handled False, w') \<and>
          cursor_file w' = Some ''20230101_5.log'' \<and>
          fail_dir w' ''20230101_5.log'' = Some ''raw'')"
proof -
  let ?w0 = "update_last_log_id ''20230101_2.log'' world0"
  let ?w1 = "retry_sleep ev_rolled_corrupt 0 3 1
               (update_last_log_id ''20230101_5.log''
                  (?w0\<lparr>requested := ''20230101_3.log'' # requested ?w0\<rparr>))"
  have n: "get_last_log_id ?w0 \<noteq> []" "get_next_file_name ?w0 = Inr ''20230101_3.log''"
    by code_simp+
  have c0: "cursor_file ?w0 = Some ''20230101_2.log''" by (simp add: update_last_log_id_def)
  \<comment> \<open>the first attempt fails\<close>
  have 1: "(0::nat) \<le> 3" by simp
  have 2: "running_at ev_corrupt 0" by (simp add: ev_corrupt_def ev_up_def)
  have 3: "download_log_file cfg0 (remote ev_corrupt 0) ''20230101_3.log'' = Tuple ''OK'' (PyStr ''raw'')"
    by (simp add: ev_corrupt_def ev_up_def download_log_file_def request_file_content_def
        raise_for_status_def Let_def)
  have 4: "process_file cfg0 ev_corrupt 0 ''20230101_3.log'' (PyStr ''raw'')
      = Some (Exception ''Error while trying to decrypt the file'')"
    by (simp add: process_file_def decrypt_file_def ev_corrupt_def ev_up_def)
  have 5: "handle_file (Suc 0) cfg0 ev_corrupt ''20230101_3.log'' 3 ?w0
      = handle_file_loop (Suc 0) cfg0 ev_corrupt 3 0 ''20230101_3.log'' 0 0 ?w0"
    by (simp add: handle_file_def)
  from processing_failure_quarantined [OF 1 2 3 4,
      where fuel = 0 and wait_time = 3 and failcount = 0 and w = ?w0 and start = ?w0
        and next_file = "''20230101_3.log''" and n = "Suc 0"] n 5
  have "handle_file_loop (Suc 0) cfg0 ev_corrupt 3 0 ''20230101_3.log'' 0 0 ?w0
     = Some (Returned False,
             ?w0\<lparr>requested := rstrip_chars [CHR 0x0D, CHR 0x0A] ''20230101_3.log'' # requested ?w0,
                fail_dir := (fail_dir ?w0)(''20230101_3.log'' \<mapsto> ''raw'')\<rparr>) \<and>
     (\<exists>w'. get_log_files_pass (Suc 0) cfg0 ev_corrupt ?w0 = Some (Handled False, w') \<and>
          cursor_file w' = cursor_file ?w0 \<and>
          fail_dir w' ''20230101_3.log'' = Some ''raw'')"
    by blast
  then have A: "handle_file_loop (Suc 0) cfg0 ev_corrupt 3 0 ''20230101_3.log'' 0 0 ?w0
     = Some (Returned False,
             ?w0\<lparr>requested := rstrip_chars [CHR 0x0D, CHR 0x0A] ''20230101_3.log'' # requested ?w0,
                fail_dir := (fail_dir ?w0)(''20230101_3.log'' \<mapsto> ''raw'')\<rparr>) \<and>
     (\<exists>w'. get_log_files_pass (Suc 0) cfg0 ev_corrupt ?w0 = Some (Handled False, w') \<and>
          cursor_file w' = Some ''20230101_2.log'' \<and>
          fail_dir w' ''20230101_3.log'' = Some ''raw'')"
    unfolding c0 .
  \<comment> \<open>the attempt after a resynchronisation fails\<close>
  have s: "split_on (CHR 0x0A) index59 = [''20230101_5.log'', ''20230101_6.log'',
      ''20230101_7.log'', ''20230101_8.log'', ''20230101_9.log'', []]"
    by code_simp
  have f: "file_seq ''20230101_3.log'' = Inr 3" "file_seq ''20230101_5.log'' = Inr 5"
    by code_simp+
  have r: "rstrip_chars [CHR 0x0D, CHR 0x0A] ''20230101_3.log'' = ''20230101_3.log''"
    by (simp add: rstrip_chars_def)
  have p0: "handle_file_pass cfg0 ev_rolled_corrupt 3 0 ''20230101_3.log'' 0 0 ?w0
      = Again ''20230101_5.log'' 1 0 ?w1"
    by (simp add: handle_file_pass_def download_log_file_def request_file_content_def
        raise_for_status_def result0_def Let_def ev_rolled_corrupt_def ev_rolled_def ev_up_def
        resync_404_def s f r neg2_def)
  have 6: "(1::nat) \<le> 3" by simp
  have 7: "running_at ev_rolled_corrupt 1" by (simp add: ev_rolled_corrupt_def ev_rolled_def ev_up_def)
  have 8: "download_log_file cfg0 (remote ev_rolled_corrupt 1) ''20230101_5.log''
      = Tuple ''OK'' (PyStr ''raw'')"
    by (simp add: ev_rolled_corrupt_def ev_rolled_def ev_up_def download_log_file_def
        request_file_content_def raise_for_status_def Let_def)
  have 9: "process_file cfg0 ev_rolled_corrupt 1 ''20230101_5.log'' (PyStr ''raw'')
      = Some (Exception ''Error while trying to decrypt the file'')"
    by (simp add: process_file_def decrypt_file_def ev_rolled_corrupt_def ev_rolled_def ev_up_def)
  have 10: "handle_file (Suc (Suc 0)) cfg0 ev_rolled_corrupt ''20230101_3.log'' 3 ?w0
      = handle_file_loop (Suc 0) cfg0 ev_rolled_corrupt 3 1 ''20230101_5.log'' 1 0 ?w1"
    by (simp add: handle_file_def p0)
  have c1: "cursor_file ?w1 = Some ''20230101_5.log''" by (simp add: update_last_log_id_def)
  from processing_failure_quarantined [OF 6 7 8 9,
      where fuel = 0 and wait_time = 3 and failcount = 0 and w = ?w1 and start = ?w0
        and next_file = "''20230101_3.log''" and n = "Suc (Suc 0)"] n 10
  have "\<exists>w'. get_log_files_pass (Suc (Suc 0)) cfg0 ev_rolled_corrupt ?w0 = Some (Handled False, w') \<and>
          cursor_file w' = cursor_file ?w1 \<and>
          fail_dir w' ''20230101_5.log'' = Some ''raw''"
    by blast
  then have B: "\<exists>w'. get_log_files_pass (Suc (Suc 0)) cfg0 ev_rolled_corrupt ?w0 = Some (Handled False, w') \<and>
          cursor_file w' = Some ''20230101_5.log'' \<and>
          fail_dir w' ''20230101_5.log'' = Some ''raw''"
    unfolding c1 .
  from A B show ?thesis by blast
qed

theorem quarantined_file_under_moved_cursor:
  "cursor_file (update_last_log_id ''20230101_2.log'' world0) = Some ''20230101_2.log'' \<and>
   pass_cursor (get_log_files_pass 2 cfg0 ev_rolled_corrupt (update_last_log_id ''20230101_2.log'' world0))
     = Some (Handled False, Some ''20230101_5.log'') \<and>
   pass_fail (get_log_files_pass 2 cfg0 ev_rolled_corrupt (update_last_log_id ''20230101_2.log'' world0))
       ''20230101_5.log''
     = Some ''raw''"
  by code_simp

text \<open>
  A response that is neither 200 nor an error status makes \<open>request_file_content\<close>
  return \<open>None\<close>, which \<open>download_log_file\<close> reports as \<open>"OK"\<close>. There is then no
  content to save: \<open>file.write(None)\<close> raises in the exception handler and
  \<open>handle_file\<close> does not return.
\<close>

lemma download_no_content:
  "code \<noteq> 200 \<Longrightarrow> code < 400 \<Longrightarrow> download_log_file cfg (\<lambda>u. Response code body) logfile = Tuple ''OK'' PyNone"
  by (simp add: download_log_file_def request_file_content_def raise_for_status_def)

lemma processing_failure_without_content:
  assumes "counter \<le> 3" and "running_at ev k"
    and "download_log_file cfg (remote ev k) logfile = Tuple ''OK'' PyNone"
  shows "\<exists>w'. handle_file_loop (Suc fuel) cfg ev wait_time k logfile counter failcount w
           = Some (Raised TypeError, w')"
  using assms
  by (simp add: handle_file_pass_def result0_def result1_def save_to_fail_def process_file_def
      decrypt_file_def)


section \<open>A pass of get_log_files\<close>

lemma get_next_file_name_cong:
  "cursor_file w1 = cursor_file w \<Longrightarrow> get_next_file_name w1 = get_next_file_name w"
  by (simp add: get_next_file_name_def get_last_log_id_def)

lemma resync_writes:
  assumes "resync_404 ev k logfile failcount w = Inr (logfile', failcount', w')"
  shows "\<exists>ws. cursor_writes w' = ws @ cursor_writes w \<and> (ws = [] \<longrightarrow> cursor_file w' = cursor_file w)"
proof -
  from assms have "w' = update_last_log_id logfile' w \<or> w' = w\<lparr>slept := 10 # slept w\<rparr> \<or> w' = w"
    by (auto simp: resync_404_def split: sum.splits list.splits if_splits)
  then show ?thesis
    by (auto simp: update_last_log_id_def)
qed

lemma pass_writes:
  "case handle_file_pass cfg ev wait_time k logfile counter failcount w of
     Done out w' \<Rightarrow>
       (\<exists>ws. cursor_writes w' = ws @ cursor_writes w \<and> (ws = [] \<longrightarrow> cursor_file w' = cursor_file w))
   | Again logfile' counter' failcount' w' \<Rightarrow>
       (\<exists>ws. cursor_writes w' = ws @ cursor_writes w \<and> (ws = [] \<longrightarrow> cursor_file w' = cursor_file w))"
proof (cases "running_at ev k \<and> result0 (download_log_file cfg (remote ev k) logfile) = ''404_NOT_FOUND''")
  case True
  let ?w1 = "w\<lparr>requested := rstrip_chars [CHR 0x0D, CHR 0x0A] logfile # requested w\<rparr>"
  show ?thesis
  proof (cases "resync_404 ev k logfile failcount ?w1")
    case (Inl e)
    with True show ?thesis by (simp add: handle_file_pass_def Let_def)
  next
    case (Inr r)
    obtain l f w2 where r: "r = (l, f, w2)" by (cases r)
    from resync_writes [of ev k logfile failcount ?w1 l f w2] Inr r
    have "\<exists>ws. cursor_writes w2 = ws @ cursor_writes w \<and> (ws = [] \<longrightarrow> cursor_file w2 = cursor_file w)"
      by simp
    with True Inr r show ?thesis by (simp add: handle_file_pass_def Let_def)
  qed
next
  case False
  then show ?thesis
    by (auto simp: handle_file_pass_def Let_def save_to_fail_def split: option.splits pyval.splits)
qed

lemma loop_writes:
  assumes "handle_file_loop fuel cfg ev wait_time k logfile counter failcount w = Some (out, w')"
  shows "\<exists>ws. cursor_writes w' = ws @ cursor_writes w \<and> (ws = [] \<longrightarrow> cursor_file w' = cursor_file w)"
  using assms
proof (induction fuel arbitrary: k logfile counter failcount w)
  case 0
  then show ?case by simp
next
  case (Suc fuel)
  show ?case
  proof (cases "counter \<le> 3")
    case False
    with Suc.prems show ?thesis by simp
  next
    case True
    note p = pass_writes [where ev = ev and k = k and cfg = cfg and wait_time = wait_time
        and logfile = logfile and counter = counter and failcount = failcount and w = w]
    show ?thesis
    proof (cases "handle_file_pass cfg ev wait_time k logfile counter failcount w")
      case (Done o1 w1)
      with Suc.prems True p show ?thesis by simp
    next
      case (Again l1 c1 f1 w1)
      with Suc.prems True
      have "handle_file_loop fuel cfg ev wait_time (Suc k) l1 c1 f1 w1 = Some (out, w')"
        by simp
      then obtain ws2 where 2: "cursor_writes w' = ws2 @ cursor_writes w1"
          "ws2 = [] \<longrightarrow> cursor_file w' = cursor_file w1"
        using Suc.IH by blast
      from Again p obtain ws1 where 1: "cursor_writes w1 = ws1 @ cursor_writes w"
          "ws1 = [] \<longrightarrow> cursor_file w1 = cursor_file w"
        by auto
      from 1 2 have "cursor_writes w' = (ws2 @ ws1) @ cursor_writes w"
          "ws2 @ ws1 = [] \<longrightarrow> cursor_file w' = cursor_file w"
        by simp_all
      then show ?thesis by blast
    qed
  qed
qed

lemma handle_file_no_write:
  assumes "handle_file fuel cfg ev logfile wait_time w = Some (out, w1)"
    and "cursor_writes w1 = cursor_writes w"
  shows "cursor_file w1 = cursor_file w"
proof -
  from assms(1) obtain ws where "cursor_writes w1 = ws @ cursor_writes w"
      "ws = [] \<longrightarrow> cursor_file w1 = cursor_file w"
    using loop_writes unfolding handle_file_def by blast
  with assms(2) show ?thesis by simp
qed

text \<open>
  Claim C3, as amended. In a pass of \<open>get_log_files\<close> with a last id, where
  \<open>next_file\<close> is the next file name, and provided the call of \<open>handle_file\<close> wrote
  nothing to the cursor file (its 404 branch did not call \<open>update_last_log_id\<close>):
  if \<open>handle_file\<close> returns success the cursor file holds \<open>next_file\<close> afterwards,
  and if it returns failure the cursor file is unchanged.
\<close>

theorem steady_pass_cursor:
  assumes "get_last_log_id w \<noteq> []"
    and "get_next_file_name w = Inr next_file"
    and "handle_file fuel cfg ev next_file 3 w = Some (Returned success, w1)"
    and "cursor_writes w1 = cursor_writes w"
  shows "\<exists>w'. get_log_files_pass fuel cfg ev w = Some (Handled success, w') \<and>
              cursor_file w' = (if success then Some next_file else cursor_file w)"
proof -
  have c: "cursor_file w1 = cursor_file w"
    by (rule handle_file_no_write [OF assms(3,4)])
  have "get_next_file_name w1 = Inr next_file"
    using get_next_file_name_cong [OF c] assms(2) by simp
  then have m: "move_to_next_file w1 = Inr (update_last_log_id next_file w1)"
    by (simp add: move_to_next_file_def)
  show ?thesis
  proof (cases success)
    case True
    with assms(1-3) m
    have "get_log_files_pass fuel cfg ev w
        = Some (Handled True, end_sleep ev (update_last_log_id next_file w1))"
      by (simp add: get_log_files_pass_def)
    with True show ?thesis by (simp add: update_last_log_id_def)
  next
    case False
    with assms(1-3)
    have "get_log_files_pass fuel cfg ev w = Some (Handled False, end_sleep ev w1)"
      by (simp add: get_log_files_pass_def)
    with False c show ?thesis by simp
  qed
qed

lemma handle_file_not_found_no_write:
  assumes "\<forall>k. running_at ev k" and "\<forall>k u. remote ev k u = Response 200 []"
  shows "\<exists>w'. handle_file (Suc (Suc (Suc (Suc (Suc n))))) cfg ev logfile wait_time w
                 = Some (Returned False, w') \<and>
              cursor_writes w' = cursor_writes w"
  using assms by (simp add: handle_file_def pass_not_found numeral_eq_Suc)

theorem steady_pass_cursor_witness:
  "(\<exists>w'. get_log_files_pass (Suc (Suc 0)) cfg0 ev_rolled (update_last_log_id ''20230101_9.log'' world0)
            = Some (Handled True, w') \<and>
          cursor_file w' = Some ''20230101_10.log'') \<and>
   (\<exists>w'. get_log_files_pass (Suc (Suc (Suc (Suc (Suc 0))))) cfg0 ev_empty
              (update_last_log_id ''20230101_9.log'' world0)
            = Some (Handled False, w') \<and>
          cursor_file w' = cursor_file (update_last_log_id ''20230101_9.log'' world0))"
proof -
  let ?w = "update_last_log_id ''20230101_9.log'' world0"
  have n: "get_last_log_id ?w \<noteq> []" "get_next_file_name ?w = Inr ''20230101_10.log''"
    by code_simp+
  have s: "split_on (CHR 0x0A) index59 = [''20230101_5.log'', ''20230101_6.log'',
      ''20230101_7.log'', ''20230101_8.log'', ''20230101_9.log'', []]"
    by code_simp
  have f: "file_seq ''20230101_10.log'' = Inr 10" "file_seq ''20230101_5.log'' = Inr 5"
    "file_seq ''20230101_9.log'' = Inr 9"
    by code_simp+
  have r: "rstrip_chars [CHR 0x0D, CHR 0x0A] ''20230101_10.log'' = ''20230101_10.log''"
    by (simp add: rstrip_chars_def)
  have "\<exists>w1. handle_file (Suc (Suc 0)) cfg0 ev_rolled ''20230101_10.log'' 3 ?w
                = Some (Returned True, w1) \<and> cursor_writes w1 = cursor_writes ?w"
    by (simp add: handle_file_def handle_file_pass_def download_log_file_def
        request_file_content_def raise_for_status_def result0_def result1_def Let_def
        ev_rolled_def ev_up_def resync_404_def s f r neg2_def retry_sleep_def
        process_file_def decrypt_file_def handle_log_decrypted_content_def cfg0_def sinks_up_def
        gzip_file_def)
  then obtain w1 where h: "handle_file (Suc (Suc 0)) cfg0 ev_rolled ''20230101_10.log'' 3 ?w
                = Some (Returned True, w1)" and c: "cursor_writes w1 = cursor_writes ?w"
    by blast
  from steady_pass_cursor [OF n h c]
  have A: "\<exists>w'. get_log_files_pass (Suc (Suc 0)) cfg0 ev_rolled ?w = Some (Handled True, w') \<and>
          cursor_file w' = Some ''20230101_10.log''"
    by simp
  have e: "\<forall>k. running_at ev_empty k" "\<forall>k u. remote ev_empty k u = Response 200 []"
    by (simp_all add: ev_empty_def ev_up_def)
  from handle_file_not_found_no_write [OF e, of 0 cfg0 "''20230101_10.log''" 3 ?w]
  obtain w2 where h2: "handle_file (Suc (Suc (Suc (Suc (Suc 0))))) cfg0 ev_empty ''20230101_10.log'' 3 ?w
      = Some (Returned False, w2)" and c2: "cursor_writes w2 = cursor_writes ?w"
    by blast
  from steady_pass_cursor [OF n h2 c2]
  have B: "\<exists>w'. get_log_files_pass (Suc (Suc (Suc (Suc (Suc 0))))) cfg0 ev_empty ?w
            = Some (Handled False, w') \<and> cursor_file w' = cursor_file ?w"
    by simp
  from A B show ?thesis by blast
qed

theorem steady_pass_cursor_moved_by_resync:
  "get_next_file_name (update_last_log_id ''20230101_2.log'' world0) = Inr ''20230101_3.log'' \<and>
   pass_cursor (get_log_files_pass 2 cfg0 ev_rolled (update_last_log_id ''20230101_2.log'' world0))
     = Some (Handled True, Some ''20230101_6.log'') \<and>
   cursor_file (update_last_log_id ''20230101_6.log'' world0) = Some ''20230101_6.log'' \<and>
   pass_cursor (get_log_files_pass 5 cfg0 ev_404 (update_last_log_id ''20230101_6.log'' world0))
     = Some (Handled False, Some ''20230101_7.log'')"
  by code_simp

end
